theory Spec2Isabelle
  imports Complex_Main
begin

section \<open>JavaScript strings\<close>

text \<open>
  A JavaScript string is modelled as a \<^typ>\<open>string\<close>: one \<^typ>\<open>char\<close> per UTF-16 code
  unit, for the code units 0 to 255 (ASCII and Latin-1). A property that may hold
  \<open>null\<close> or \<open>undefined\<close> is a \<^typ>\<open>string option\<close>, with \<open>None\<close> for both.
\<close>

definition truthy :: "string option \<Rightarrow> bool" where
  \<comment> \<open>JavaScript truthiness of a value that is null, undefined or a string\<close>
  "truthy v = (case v of None \<Rightarrow> False | Some s \<Rightarrow> s \<noteq> [])"

definition is_digit :: "char \<Rightarrow> bool" where
  \<comment> \<open>the classes \<open>\d\<close> and \<open>[0-9]\<close>\<close>
  "is_digit c = (c \<in> set ''0123456789'')"

definition is_space :: "char \<Rightarrow> bool" where
  \<comment> \<open>the class \<open>\s\<close>, also what \<open>trim\<close> strips: tab, LF, VT, FF, CR, space, NBSP\<close>
  "is_space c = (c \<in> set [CHR 0x09, CHR 0x0A, CHR 0x0B, CHR 0x0C, CHR 0x0D, CHR 0x20, CHR 0xA0])"

definition trim :: "string \<Rightarrow> string" where
  "trim s = rev (dropWhile is_space (rev (dropWhile is_space s)))"

definition upper_chars :: string where
  "upper_chars = ''ABCDEFGHIJKLMNOPQRSTUVWXYZ'' @
     [CHR 0xC0, CHR 0xC1, CHR 0xC2, CHR 0xC3, CHR 0xC4, CHR 0xC5, CHR 0xC6, CHR 0xC7,
      CHR 0xC8, CHR 0xC9, CHR 0xCA, CHR 0xCB, CHR 0xCC, CHR 0xCD, CHR 0xCE, CHR 0xCF,
      CHR 0xD0, CHR 0xD1, CHR 0xD2, CHR 0xD3, CHR 0xD4, CHR 0xD5, CHR 0xD6,
      CHR 0xD8, CHR 0xD9, CHR 0xDA, CHR 0xDB, CHR 0xDC, CHR 0xDD, CHR 0xDE]"

definition lower_chars :: string where
  "lower_chars = ''abcdefghijklmnopqrstuvwxyz'' @
     [CHR 0xE0, CHR 0xE1, CHR 0xE2, CHR 0xE3, CHR 0xE4, CHR 0xE5, CHR 0xE6, CHR 0xE7,
      CHR 0xE8, CHR 0xE9, CHR 0xEA, CHR 0xEB, CHR 0xEC, CHR 0xED, CHR 0xEE, CHR 0xEF,
      CHR 0xF0, CHR 0xF1, CHR 0xF2, CHR 0xF3, CHR 0xF4, CHR 0xF5, CHR 0xF6,
      CHR 0xF8, CHR 0xF9, CHR 0xFA, CHR 0xFB, CHR 0xFC, CHR 0xFD, CHR 0xFE]"

definition toLowerCase :: "string \<Rightarrow> string" where
  "toLowerCase s =
     map (\<lambda>c. case map_of (zip upper_chars lower_chars) c of Some d \<Rightarrow> d | None \<Rightarrow> c) s"

definition toUpperCase :: "string \<Rightarrow> string" where
  \<comment> \<open>the letters whose capital is again one code unit below 256\<close>
  "toUpperCase s =
     map (\<lambda>c. case map_of (zip lower_chars upper_chars) c of Some d \<Rightarrow> d | None \<Rightarrow> c) s"

definition startsWith :: "string \<Rightarrow> string \<Rightarrow> bool" where
  "startsWith s t = (take (length t) s = t)"

fun str_includes :: "string \<Rightarrow> string \<Rightarrow> bool" where
  \<comment> \<open>\<open>s.includes(t)\<close>: \<open>t\<close> occurs in \<open>s\<close> at some index\<close>
  "str_includes [] t = (t = [])"
| "str_includes (c # cs) t = (startsWith (c # cs) t \<or> str_includes cs t)"

section \<open>Similarity scorer (duplicateDetector.js)\<close>

fun lev_row :: "char \<Rightarrow> string \<Rightarrow> nat list \<Rightarrow> nat \<Rightarrow> nat list" where
  \<comment> \<open>The inner loop over \<open>j\<close> for one row \<open>i\<close>: \<open>c\<close> is \<open>s2.charAt(i - 1)\<close>, the string
      holds \<open>s1\<close> from index \<open>j - 1\<close>, the list holds \<open>matrix[i - 1]\<close> from column \<open>j - 1\<close>
      and \<open>left\<close> is \<open>matrix[i][j - 1]\<close>; the result is \<open>matrix[i]\<close> from column \<open>j\<close>.\<close>
  "lev_row c (d # ds) (diag # up # prev) left =
     (let v = (if c = d then diag else min (diag + 1) (min (left + 1) (up + 1)))
      in v # lev_row c ds (up # prev) v)"
| "lev_row c _ _ left = []"

fun lev_rows :: "string \<Rightarrow> string \<Rightarrow> nat list \<Rightarrow> nat \<Rightarrow> nat list" where
  \<comment> \<open>The outer loop over \<open>i\<close>: the string holds \<open>s2\<close> from index \<open>i - 1\<close>, the list is
      \<open>matrix[i - 1]\<close>; the result is the last row, \<open>matrix[s2.length]\<close>.\<close>
  "lev_rows s1 [] prev i = prev"
| "lev_rows s1 (c # cs) prev i = lev_rows s1 cs (i # lev_row c s1 prev i) (i + 1)"

definition levenshtein :: "string \<Rightarrow> string \<Rightarrow> nat" where
  \<comment> \<open>\<open>matrix[s2.length][s1.length]\<close>, with \<open>matrix[0][j] = j\<close> and \<open>matrix[i][0] = i\<close>\<close>
  "levenshtein s1 s2 = last (lev_rows s1 s2 [0 ..< length s1 + 1] 1)"

definition calculateSimilarity :: "string \<Rightarrow> string \<Rightarrow> rat" where
  "calculateSimilarity str1 str2 =
     (if str1 = [] \<or> str2 = [] then 0
      else let s1 = trim (toLowerCase str1); s2 = trim (toLowerCase str2)
           in if s1 = s2 then 1
              else 1 - of_nat (levenshtein s1 s2) / of_nat (max (length s1) (length s2)))"

definition normalizePhoneNumber :: "string \<Rightarrow> string" where
  "normalizePhoneNumber phone =
     (if phone = [] then []
      else let cleaned = filter is_digit phone
           in if length cleaned = 11 \<and> startsWith cleaned ''1'' then drop 1 cleaned
              else cleaned)"

definition arePhoneNumbersSimilar :: "string option \<Rightarrow> string option \<Rightarrow> bool" where
  "arePhoneNumbersSimilar p1 p2 =
     (case (p1, p2) of
        (Some phone1, Some phone2) \<Rightarrow>
          if phone1 = [] \<or> phone2 = [] then False
          else let normalized1 = normalizePhoneNumber phone1;
                   normalized2 = normalizePhoneNumber phone2
               in if normalized1 = normalized2 then True
                  else if str_includes normalized1 normalized2
                          \<or> str_includes normalized2 normalized1 then True
                  else calculateSimilarity normalized1 normalized2 > 8 / 10
      | _ \<Rightarrow> False)"

definition areNamesSimilar :: "string \<Rightarrow> string \<Rightarrow> bool" where
  "areNamesSimilar name1 name2 =
     (if name1 = [] \<or> name2 = [] then False
      else let similarity = calculateSimilarity name1 name2 in similarity > 7 / 10)"

fun split_on :: "char \<Rightarrow> string \<Rightarrow> string list" where
  \<comment> \<open>\<open>s.split(sep)\<close> for a separator of one character; the result is never empty\<close>
  "split_on sep [] = [[]]"
| "split_on sep (c # cs) =
     (if c = sep then [] # split_on sep cs
      else case split_on sep cs of p # ps \<Rightarrow> (c # p) # ps | [] \<Rightarrow> [[c]])"

definition areEmailsSimilar :: "string option \<Rightarrow> string option \<Rightarrow> bool" where
  \<comment> \<open>\<open>split('@')[1]\<close> is \<open>undefined\<close>, hence falsy, when the address has no \<open>@\<close>\<close>
  "areEmailsSimilar e1 e2 =
     (case (e1, e2) of
        (Some email1, Some email2) \<Rightarrow>
          if email1 = [] \<or> email2 = [] then False
          else if toLowerCase email1 = toLowerCase email2 then True
          else (case (split_on CHR ''@'' email1, split_on CHR ''@'' email2) of
                  (username1 # domain1 # _, username2 # domain2 # _) \<Rightarrow>
                    if domain1 \<noteq> [] \<and> domain2 \<noteq> [] \<and> domain1 = domain2
                    then calculateSimilarity username1 username2 > 8 / 10
                    else False
                | _ \<Rightarrow> False)
      | _ \<Rightarrow> False)"

section \<open>Contacts and the persistence collaborator\<close>

record contact =
  first_name :: "string option"
  last_name :: "string option"
  phone_number :: "string option"
  email :: "string option"
  relationship_type :: "string option"
  data_owner :: "string option"

text \<open>A row of the \<open>contacts\<close> table: the columns the services read or write.\<close>

record stored_contact = contact +
  contact_id :: nat
  contact_notes :: "string option"

datatype error = Error string

text \<open>
  \<open>executeQuery\<close> hands an SQL text to the database, which is not part of the
  repository: the model takes the database's behaviour as a parameter, a function from
  the query issued to the rows it yields or the error it rejects with. One constructor
  stands for each SQL text of the services:
  \<^item> \<open>FindCandidates contact excludeId\<close>: the prefilter \<open>SELECT\<close> of \<open>detectDuplicates\<close>,
    built from the candidate's fields and \<open>excludeId\<close>;
  \<^item> \<open>SelectContact id\<close>: \<open>SELECT * FROM contacts WHERE id = $1\<close>;
  \<^item> \<open>SelectContactsIn ids\<close>: \<open>SELECT * FROM contacts WHERE id IN (ids)\<close>;
  \<^item> \<open>UpdateContact id merged\<close>: the \<open>UPDATE contacts SET ... WHERE id = $8\<close> of the merge;
  \<^item> \<open>DeleteContactsIn ids\<close>: \<open>DELETE FROM contacts WHERE id IN (ids)\<close>.
\<close>

datatype query =
    FindCandidates contact "nat option"
  | SelectContact nat
  | SelectContactsIn "nat list"
  | UpdateContact nat stored_contact
  | DeleteContactsIn "nat list"

type_synonym executeQuery = "query \<Rightarrow> error + stored_contact list"

section \<open>Duplicate detector (duplicateDetector.js)\<close>

record duplicate_match =
  existingContact :: stored_contact
  similarityScore :: rat
  matchReasons :: "string list"
  isExactMatch :: bool

record detect_result =
  hasDuplicates :: bool
  duplicates :: "duplicate_match list"
  totalDuplicates :: nat

definition or_empty :: "string option \<Rightarrow> string" where
  \<comment> \<open>\<open>v || ''\<close>\<close>
  "or_empty v = (case v of None \<Rightarrow> [] | Some s \<Rightarrow> s)"

definition fullName :: "'a contact_scheme \<Rightarrow> string" where
  \<comment> \<open>the template \<open>`${c.first_name || ''} ${c.last_name || ''}`.trim()\<close>\<close>
  "fullName c = trim (or_empty (first_name c) @ '' '' @ or_empty (last_name c))"

text \<open>
  Numbers are doubles in the code and rationals in the model. The scores are sums of
  0.4, 0.4 and 0.3 compared with 0.4 and 0.8, and a similarity is \<open>1 - distance / maxLength\<close>
  compared with 0.8 or 0.7; the doubles compare as the rationals do, also at the
  thresholds (\<open>0.4 + 0.4\<close> is the double 0.8, \<open>1 - 1 / 5\<close> is the double 0.8 and
  \<open>1 - 3 / 10\<close> is the double 0.7).
\<close>

definition score_contact :: "contact \<Rightarrow> stored_contact \<Rightarrow> rat \<times> string list" where
  \<comment> \<open>the body of the loop over \<open>result.rows\<close>, up to the threshold test:
      \<open>similarityScore\<close> and \<open>matchReasons\<close> after the three checks\<close>
  "score_contact c existing =
     (let s0 = (0, []);
          s1 = (if truthy (phone_number c) \<and> truthy (phone_number existing)
                then if arePhoneNumbersSimilar (phone_number c) (phone_number existing)
                     then (fst s0 + 4 / 10, snd s0 @ [''Phone number match'']) else s0
                else s0);
          s2 = (if truthy (email c) \<and> truthy (email existing)
                then if areEmailsSimilar (email c) (email existing)
                     then (fst s1 + 4 / 10, snd s1 @ [''Email match'']) else s1
                else s1);
          existingFullName = fullName existing;
          newFullName = fullName c
      in if existingFullName \<noteq> [] \<and> newFullName \<noteq> []
         then if areNamesSimilar existingFullName newFullName
              then (fst s2 + 3 / 10, snd s2 @ [''Name similarity'']) else s2
         else s2)"

fun detect_loop :: "contact \<Rightarrow> stored_contact list \<Rightarrow> duplicate_match list \<Rightarrow> duplicate_match list" where
  \<comment> \<open>\<open>for (const existingContact of result.rows)\<close>, pushing onto \<open>duplicates\<close>\<close>
  "detect_loop c [] dups = dups"
| "detect_loop c (existing # rest) dups =
     (let (score, reasons) = score_contact c existing
      in if score \<ge> 4 / 10
         then detect_loop c rest
                (dups @ [\<lparr>existingContact = existing, similarityScore = score,
                          matchReasons = reasons, isExactMatch = (score \<ge> 8 / 10)\<rparr>])
         else detect_loop c rest dups)"

definition detectDuplicates :: "executeQuery \<Rightarrow> contact \<Rightarrow> nat option \<Rightarrow> error + detect_result" where
  \<comment> \<open>\<open>Inl\<close> is a rejected promise. The \<open>catch\<close> logs the error and falls through to the
      \<open>return\<close> with \<open>duplicates\<close> still empty. \<open>sort\<close> is stable and descending by score.\<close>
  "detectDuplicates exec c excludeId =
     (let dups = (case exec (FindCandidates c excludeId) of
                    Inl err \<Rightarrow> []
                  | Inr rows \<Rightarrow> sort_key (\<lambda>d. - similarityScore d) (detect_loop c rows []))
      in Inr \<lparr>hasDuplicates = (length dups > 0), duplicates = dups,
              totalDuplicates = length dups\<rparr>)"

section \<open>Merger (duplicateDetector.js)\<close>

record merge_result =
  success :: bool
  mergedContact :: stored_contact
  deletedCount :: nat

fun digits_of :: "nat \<Rightarrow> string" where
  \<comment> \<open>a number inside a template literal: its decimal digits\<close>
  "digits_of n =
     (if n < 10 then [''0123456789'' ! n] else digits_of (n div 10) @ [''0123456789'' ! (n mod 10)])"

definition merge_step :: "stored_contact \<Rightarrow> stored_contact \<Rightarrow> stored_contact" where
  \<comment> \<open>the body of the loop over \<open>duplicatesResult.rows\<close>\<close>
  "merge_step merged duplicate =
     (let m1 = (if \<not> truthy (first_name merged) \<and> truthy (first_name duplicate)
                then merged\<lparr>first_name := first_name duplicate\<rparr> else merged);
          m2 = (if \<not> truthy (last_name m1) \<and> truthy (last_name duplicate)
                then m1\<lparr>last_name := last_name duplicate\<rparr> else m1);
          m3 = (if \<not> truthy (phone_number m2) \<and> truthy (phone_number duplicate)
                then m2\<lparr>phone_number := phone_number duplicate\<rparr> else m2);
          m4 = (if \<not> truthy (email m3) \<and> truthy (email duplicate)
                then m3\<lparr>email := email duplicate\<rparr> else m3);
          m5 = (if \<not> truthy (relationship_type m4) \<and> truthy (relationship_type duplicate)
                then m4\<lparr>relationship_type := relationship_type duplicate\<rparr> else m4);
          m6 = (if \<not> truthy (data_owner m5) \<and> truthy (data_owner duplicate)
                then m5\<lparr>data_owner := data_owner duplicate\<rparr> else m5)
      in if truthy (contact_notes duplicate)
         then m6\<lparr>contact_notes := Some
                (if truthy (contact_notes m6)
                 then or_empty (contact_notes m6) @ [CHR 0x0A, CHR 0x0A] @ ''Merged from contact ID ''
                      @ digits_of (contact_id duplicate) @ '': '' @ or_empty (contact_notes duplicate)
                 else ''Merged from contact ID '' @ digits_of (contact_id duplicate) @ '': ''
                      @ or_empty (contact_notes duplicate))\<rparr>
         else m6)"

fun merge_loop :: "stored_contact \<Rightarrow> stored_contact list \<Rightarrow> stored_contact" where
  "merge_loop merged [] = merged"
| "merge_loop merged (duplicate # rest) = merge_loop (merge_step merged duplicate) rest"

definition mergeContacts :: "executeQuery \<Rightarrow> nat \<Rightarrow> nat list \<Rightarrow> error + merge_result" where
  \<comment> \<open>every rejection and the \<open>throw\<close> go through the \<open>catch\<close>, which logs and rethrows\<close>
  "mergeContacts exec primaryContactId duplicateContactIds =
     (case exec (SelectContact primaryContactId) of
        Inl err \<Rightarrow> Inl err
      | Inr [] \<Rightarrow> Inl (Error ''Primary contact not found'')
      | Inr (primaryContact # _) \<Rightarrow>
          (case exec (SelectContactsIn duplicateContactIds) of
             Inl err \<Rightarrow> Inl err
           | Inr rows \<Rightarrow>
               (let merged = merge_loop primaryContact rows
                in case exec (UpdateContact primaryContactId merged) of
                     Inl err \<Rightarrow> Inl err
                   | Inr _ \<Rightarrow>
                       (case exec (DeleteContactsIn duplicateContactIds) of
                          Inl err \<Rightarrow> Inl err
                        | Inr _ \<Rightarrow> Inr \<lparr>success = True, mergedContact = merged,
                                        deletedCount = length duplicateContactIds\<rparr>))))"

section \<open>Regular expressions\<close>

text \<open>
  The fragment of JavaScript's regular expressions that the parser's patterns are written
  in, with the backtracking matcher's order of preference: \<open>rx_match r s\<close> lists, most
  preferred first, what is left of \<open>s\<close> after each way \<open>r\<close> can match a prefix of it. All
  quantifiers are greedy. None of the patterns carries the \<open>i\<close>, \<open>m\<close> or \<open>u\<close> flag.
\<close>

datatype rx =
    Eps                  \<comment> \<open>the empty pattern\<close>
  | Cls "char \<Rightarrow> bool"  \<comment> \<open>one character of a class\<close>
  | Seq rx rx            \<comment> \<open>\<open>ab\<close>\<close>
  | Opt rx               \<comment> \<open>\<open>a?\<close>\<close>
  | Plus "char \<Rightarrow> bool" \<comment> \<open>\<open>[...]+\<close>\<close>

fun many :: "(char \<Rightarrow> bool) \<Rightarrow> string \<Rightarrow> string list" where
  \<comment> \<open>\<open>[...]*\<close>: the longest run first, then one character less, down to none\<close>
  "many p [] = [[]]"
| "many p (c # cs) = (if p c then many p cs @ [c # cs] else [c # cs])"

fun rx_match :: "rx \<Rightarrow> string \<Rightarrow> string list" where
  "rx_match Eps s = [s]"
| "rx_match (Cls p) s = (case s of c # cs \<Rightarrow> if p c then [cs] else [] | [] \<Rightarrow> [])"
| "rx_match (Seq a b) s = concat (map (rx_match b) (rx_match a s))"
| "rx_match (Opt a) s = rx_match a s @ [s]"
| "rx_match (Plus p) s = (case s of c # cs \<Rightarrow> if p c then many p cs else [] | [] \<Rightarrow> [])"

fun rx_seq :: "rx list \<Rightarrow> rx" where
  \<comment> \<open>the items of a pattern, one after the other\<close>
  "rx_seq [] = Eps"
| "rx_seq (r # rs) = Seq r (rx_seq rs)"

fun rx_times :: "nat \<Rightarrow> rx \<Rightarrow> rx" where
  \<comment> \<open>\<open>a{n}\<close>\<close>
  "rx_times 0 r = Eps"
| "rx_times (Suc n) r = Seq r (rx_times n r)"

fun rx_upto :: "nat \<Rightarrow> rx \<Rightarrow> rx" where
  \<comment> \<open>\<open>a{0,n}\<close>: as many as possible first\<close>
  "rx_upto 0 r = Eps"
| "rx_upto (Suc n) r = Opt (Seq r (rx_upto n r))"

definition rx_test_whole :: "rx \<Rightarrow> string \<Rightarrow> bool" where
  \<comment> \<open>\<open>/^r$/.test(s)\<close>: some way of matching at index 0 uses up the string\<close>
  "rx_test_whole r s = ([] \<in> set (rx_match r s))"

fun rx_first_match :: "rx \<Rightarrow> string \<Rightarrow> string option" where
  \<comment> \<open>\<open>s.match(/r/g)\<close>, element 0: the text of the leftmost match, \<open>None\<close> for \<open>null\<close>\<close>
  "rx_first_match r [] = (case rx_match r [] of rest # _ \<Rightarrow> Some [] | [] \<Rightarrow> None)"
| "rx_first_match r (c # cs) =
     (case rx_match r (c # cs) of
        rest # _ \<Rightarrow> Some (take (length (c # cs) - length rest) (c # cs))
      | [] \<Rightarrow> rx_first_match r cs)"

section \<open>More string operations\<close>

function split_ws :: "string \<Rightarrow> string \<Rightarrow> string list" where
  \<comment> \<open>\<open>s.split(/\s+/)\<close>, called with \<open>[]\<close> as the first argument, which holds the piece
      read so far, reversed; white space at either end of \<open>s\<close> gives an empty piece\<close>
  "split_ws cur [] = [rev cur]"
| "split_ws cur (c # cs) =
     (if is_space c then rev cur # split_ws [] (dropWhile is_space cs)
      else split_ws (c # cur) cs)"
  by pat_completeness auto
termination
  by (relation "measure (\<lambda>(cur, s). length s)") (auto simp add: length_dropWhile_le less_Suc_eq_le)

function split_str :: "string \<Rightarrow> string \<Rightarrow> string \<Rightarrow> string list" where
  \<comment> \<open>\<open>s.split(sep)\<close> for a separator of one character or more, called with \<open>[]\<close> as the
      second argument, which holds the piece read so far, reversed\<close>
  "split_str sep cur [] = [rev cur]"
| "split_str sep cur (c # cs) =
     (if sep \<noteq> [] \<and> startsWith (c # cs) sep
      then rev cur # split_str sep [] (drop (length sep) (c # cs))
      else split_str sep (c # cur) cs)"
  by pat_completeness auto
termination
  by (relation "measure (\<lambda>(sep, cur, s). length s)") auto

fun join :: "string \<Rightarrow> string list \<Rightarrow> string" where
  \<comment> \<open>\<open>xs.join(sep)\<close>\<close>
  "join sep [] = []"
| "join sep [x] = x"
| "join sep (x # xs) = x @ sep @ join sep xs"

fun replace_first :: "string \<Rightarrow> string \<Rightarrow> string" where
  \<comment> \<open>\<open>s.replace(pat, '')\<close> for a string \<open>pat\<close>: the first occurrence is removed\<close>
  "replace_first [] pat = []"
| "replace_first (c # cs) pat =
     (if startsWith (c # cs) pat then drop (length pat) (c # cs)
      else c # replace_first cs pat)"

definition js_nth :: "string list \<Rightarrow> nat \<Rightarrow> string option" where
  \<comment> \<open>\<open>parts[i]\<close>: \<open>undefined\<close> past the end\<close>
  "js_nth parts i = (if i < length parts then Some (parts ! i) else None)"

section \<open>Normalizers (contactParser.js)\<close>

definition formatPhoneNumber :: "string \<Rightarrow> string option" where
  "formatPhoneNumber phone =
     (if phone = [] then None
      else let cleaned = filter is_digit phone
           in if length cleaned = 10 then Some (''+1'' @ cleaned)
              else if length cleaned = 11 \<and> startsWith cleaned ''1'' then Some (''+'' @ cleaned)
              else if length cleaned = 12 \<and> startsWith cleaned ''91'' then Some (''+'' @ cleaned)
              else if length cleaned \<ge> 10 then Some (''+'' @ cleaned)
              else Some phone)"

definition not_space_at :: "char \<Rightarrow> bool" where
  \<comment> \<open>the class \<open>[^\s@]\<close>\<close>
  "not_space_at c = (\<not> is_space c \<and> c \<noteq> CHR ''@'')"

definition emailRegex :: rx where
  \<comment> \<open>\<open>/^[^\s@]+@[^\s@]+\.[^\s@]+$/\<close>, between the anchors\<close>
  "emailRegex = rx_seq [Plus not_space_at, Cls (\<lambda>c. c = CHR ''@''), Plus not_space_at,
                        Cls (\<lambda>c. c = CHR ''.''), Plus not_space_at]"

definition validateEmail :: "string \<Rightarrow> string option" where
  "validateEmail e =
     (if e = [] then None else if rx_test_whole emailRegex e then Some e else None)"

definition detectRelationshipType :: "string \<Rightarrow> string" where
  "detectRelationshipType text =
     (if text = [] then ''Other''
      else let lowerText = toLowerCase text
           in if str_includes lowerText ''client'' \<or> str_includes lowerText ''customer''
              then ''Client''
              else if str_includes lowerText ''vendor'' \<or> str_includes lowerText ''supplier''
              then ''Vendor''
              else if str_includes lowerText ''lead'' \<or> str_includes lowerText ''prospect''
              then ''Lead''
              else if str_includes lowerText ''partner'' \<or> str_includes lowerText ''associate''
              then ''Partner''
              else ''Other'')"

definition parseName :: "string \<Rightarrow> string \<times> string" where
  \<comment> \<open>the pair is \<open>{first_name, last_name}\<close>; \<open>split\<close> yields at least one piece\<close>
  "parseName nameText =
     (if nameText = [] then ([], [])
      else let name = trim nameText; parts = split_ws [] name
           in case parts of
                [p0] \<Rightarrow> (p0, [])
              | [p0, p1] \<Rightarrow> (p0, p1)
              | p0 # rest \<Rightarrow> (p0, join '' '' rest)
              | [] \<Rightarrow> ([], []))"

section \<open>Line parser (contactParser.js)\<close>

definition new_contact :: "string \<times> string \<Rightarrow> contact" where
  \<comment> \<open>\<open>contact = {}\<close> with \<open>first_name\<close> and \<open>last_name\<close> set from \<open>nameInfo\<close>\<close>
  "new_contact nameInfo =
     \<lparr>first_name = Some (fst nameInfo), last_name = Some (snd nameInfo), phone_number = None,
      email = None, relationship_type = None, data_owner = None\<rparr>"

definition parseCommaSeparated :: "string \<Rightarrow> contact option" where
  "parseCommaSeparated line =
     (let parts = map trim (split_on CHR '','' line)
      in if length parts < 2 then None
         else let c0 = new_contact (parseName (or_empty (js_nth parts 0)));
                  c1 = (if truthy (js_nth parts 1)
                        then c0\<lparr>phone_number := formatPhoneNumber (or_empty (js_nth parts 1))\<rparr>
                        else c0);
                  c2 = (if truthy (js_nth parts 2)
                        then c1\<lparr>email := validateEmail (or_empty (js_nth parts 2))\<rparr>
                        else c1);
                  c3 = (if truthy (js_nth parts 3)
                        then c2\<lparr>relationship_type :=
                                   Some (detectRelationshipType (or_empty (js_nth parts 3)))\<rparr>
                        else c2)
              in Some c3)"

definition parseTabSeparated :: "string \<Rightarrow> contact option" where
  "parseTabSeparated line =
     (let parts = map trim (split_on (CHR 0x09) line)
      in if length parts < 2 then None
         else let c0 = new_contact (parseName (or_empty (js_nth parts 0)));
                  c1 = (if truthy (js_nth parts 1)
                        then c0\<lparr>phone_number := formatPhoneNumber (or_empty (js_nth parts 1))\<rparr>
                        else c0);
                  c2 = (if truthy (js_nth parts 2)
                        then c1\<lparr>email := validateEmail (or_empty (js_nth parts 2))\<rparr>
                        else c1);
                  c3 = (if truthy (js_nth parts 3)
                        then c2\<lparr>relationship_type :=
                                   Some (detectRelationshipType (or_empty (js_nth parts 3)))\<rparr>
                        else c2)
              in Some c3)"

definition phoneish :: "char \<Rightarrow> bool" where
  \<comment> \<open>the class \<open>[\d\-\(\)\s]\<close>\<close>
  "phoneish c = (is_digit c \<or> c = CHR ''-'' \<or> c = CHR ''('' \<or> c = CHR '')'' \<or> is_space c)"

fun classify_parts ::
  "string list \<Rightarrow> string list \<times> string option \<times> string option \<times> string
     \<Rightarrow> string list \<times> string option \<times> string option \<times> string" where
  \<comment> \<open>\<open>for (const part of parts)\<close>; the state is \<open>nameParts\<close>, \<open>phoneNumber\<close>, \<open>email\<close>
      and \<open>relationshipType\<close>\<close>
  "classify_parts [] st = st"
| "classify_parts (part # rest) (nameParts, phoneNumber, mail, relationshipType) =
     (if \<not> truthy phoneNumber \<and> list_ex phoneish part
      then classify_parts rest (nameParts, formatPhoneNumber part, mail, relationshipType)
      else if \<not> truthy mail \<and> str_includes part ''@''
      then classify_parts rest (nameParts, phoneNumber, validateEmail part, relationshipType)
      else if toLowerCase part \<in> set [''client'', ''vendor'', ''lead'', ''partner'', ''other'']
      then classify_parts rest
             (nameParts, phoneNumber, mail,
              toUpperCase (take 1 part) @ toLowerCase (drop 1 part))
      else classify_parts rest (nameParts @ [part], phoneNumber, mail, relationshipType))"

definition parseSpaceSeparated :: "string \<Rightarrow> contact option" where
  "parseSpaceSeparated line =
     (let parts = split_ws [] line
      in if length parts < 3 then None
         else case classify_parts parts ([], None, None, ''Other'') of
                (nameParts, phoneNumber, mail, relationshipType) \<Rightarrow>
                  if length nameParts = 0 \<or> \<not> truthy phoneNumber then None
                  else Some ((new_contact (parseName (join '' '' nameParts)))
                               \<lparr>phone_number := phoneNumber, email := mail,
                                relationship_type := Some relationshipType\<rparr>))"

definition phone_sep :: "char \<Rightarrow> bool" where
  \<comment> \<open>the class \<open>[-.\s]\<close>\<close>
  "phone_sep c = (c = CHR ''-'' \<or> c = CHR ''.'' \<or> is_space c)"

definition is_alpha :: "char \<Rightarrow> bool" where
  \<comment> \<open>the class \<open>[a-zA-Z]\<close>\<close>
  "is_alpha c = (c \<in> set ''abcdefghijklmnopqrstuvwxyzABCDEFGHIJKLMNOPQRSTUVWXYZ'')"

definition phonePatterns :: "rx list" where
  \<comment> \<open>\<open>/(\+?\d{1,3}[-.\s]?)?\(?([0-9]{3})\)?[-.\s]?([0-9]{3})[-.\s]?([0-9]{4})/g\<close> and
      \<open>/(\+?\d{1,3}[-.\s]?)?([0-9]{3})[-.\s]?([0-9]{3})[-.\s]?([0-9]{4})/g\<close>\<close>
  "phonePatterns =
     [rx_seq [Opt (rx_seq [Opt (Cls (\<lambda>c. c = CHR ''+'')), Cls is_digit,
                           rx_upto 2 (Cls is_digit), Opt (Cls phone_sep)]),
              Opt (Cls (\<lambda>c. c = CHR ''('')), rx_times 3 (Cls is_digit),
              Opt (Cls (\<lambda>c. c = CHR '')'')), Opt (Cls phone_sep),
              rx_times 3 (Cls is_digit), Opt (Cls phone_sep), rx_times 4 (Cls is_digit)],
      rx_seq [Opt (rx_seq [Opt (Cls (\<lambda>c. c = CHR ''+'')), Cls is_digit,
                           rx_upto 2 (Cls is_digit), Opt (Cls phone_sep)]),
              rx_times 3 (Cls is_digit), Opt (Cls phone_sep),
              rx_times 3 (Cls is_digit), Opt (Cls phone_sep), rx_times 4 (Cls is_digit)]]"

definition emailPattern :: rx where
  \<comment> \<open>\<open>/[a-zA-Z0-9._%+-]+@[a-zA-Z0-9.-]+\.[a-zA-Z]{2,}/g\<close>\<close>
  "emailPattern =
     rx_seq [Plus (\<lambda>c. is_alpha c \<or> is_digit c \<or> c \<in> set ''._%+-''),
             Cls (\<lambda>c. c = CHR ''@''),
             Plus (\<lambda>c. is_alpha c \<or> is_digit c \<or> c \<in> set ''.-''),
             Cls (\<lambda>c. c = CHR ''.''), Cls is_alpha, Plus is_alpha]"

fun extract_phone :: "rx list \<Rightarrow> string \<Rightarrow> string option" where
  \<comment> \<open>\<open>for (const pattern of phonePatterns)\<close>, left at the first pattern that matches\<close>
  "extract_phone [] line = None"
| "extract_phone (pattern # rest) line =
     (case rx_first_match pattern line of
        Some m \<Rightarrow> formatPhoneNumber m
      | None \<Rightarrow> extract_phone rest line)"

definition parseByPattern :: "string \<Rightarrow> contact option" where
  "parseByPattern line =
     (let phoneNumber = extract_phone phonePatterns line;
          mail = (case rx_first_match emailPattern line of
                    Some m \<Rightarrow> validateEmail m
                  | None \<Rightarrow> None);
          nameText0 = line;
          nameText1 = (if truthy phoneNumber
                       then trim (replace_first nameText0 (or_empty phoneNumber))
                       else nameText0);
          nameText2 = (if truthy mail
                       then trim (replace_first nameText1 (or_empty mail))
                       else nameText1);
          nameText3 = trim (filter (\<lambda>c. c \<noteq> CHR '','' \<and> c \<noteq> CHR '';'') nameText2)
      in if nameText3 = [] \<or> \<not> truthy phoneNumber then None
         else Some ((new_contact (parseName nameText3))
                      \<lparr>phone_number := phoneNumber, email := mail,
                       relationship_type := Some ''Other''\<rparr>))"

definition parseContactLine :: "string \<Rightarrow> contact option" where
  "parseContactLine line =
     (let commaSeparated = parseCommaSeparated line
      in if commaSeparated \<noteq> None then commaSeparated
         else let tabSeparated = parseTabSeparated line
              in if tabSeparated \<noteq> None then tabSeparated
                 else let spaceSeparated = parseSpaceSeparated line
                      in if spaceSeparated \<noteq> None then spaceSeparated
                         else let patternParsed = parseByPattern line
                              in if patternParsed \<noteq> None then patternParsed
                                 else None)"

definition parseAlternativeFormats :: "string \<Rightarrow> contact option" where
  "parseAlternativeFormats line =
     (let dashSeparated = map trim (split_str '' - '' [] line)
      in if length dashSeparated \<ge> 2
         then let c0 = new_contact (parseName (or_empty (js_nth dashSeparated 0)));
                  c1 = (if truthy (js_nth dashSeparated 1)
                        then c0\<lparr>phone_number :=
                                   formatPhoneNumber (or_empty (js_nth dashSeparated 1))\<rparr>
                        else c0);
                  c2 = (if truthy (js_nth dashSeparated 2)
                        then c1\<lparr>email := validateEmail (or_empty (js_nth dashSeparated 2))\<rparr>
                        else c1)
              in Some c2
         else None)"

definition validateParsedContact :: "contact \<Rightarrow> bool" where
  "validateParsedContact c =
     (if \<not> truthy (first_name c) \<or> \<not> truthy (phone_number c) then False
      else if length (or_empty (phone_number c)) < 10 then False
      else if truthy (email c) \<and> \<not> str_includes (or_empty (email c)) ''@'' then False
      else True)"

section \<open>Batch parser (contactParser.js)\<close>

text \<open>
  The body of each \<open>try\<close> block is a function to \<^typ>\<open>error + contact list\<close>: \<open>Inl\<close> when
  a call inside it throws, \<open>Inr\<close> with \<open>contacts\<close> after the block otherwise. The line
  parsers are parameters of the batch functions, of type
  \<^typ>\<open>string \<Rightarrow> error + contact option\<close>, so that the \<open>catch\<close> has a caller that throws;
  the repository's own parsers return on every string.
\<close>

fun batch_loop ::
  "(string \<Rightarrow> contact list \<Rightarrow> error + contact list) \<Rightarrow> string list \<Rightarrow> contact list
     \<Rightarrow> contact list" where
  \<comment> \<open>\<open>for (let i = 0; i < lines.length; i++)\<close> with its \<open>continue\<close>, \<open>try\<close> and \<open>catch\<close>\<close>
  "batch_loop body [] contacts = contacts"
| "batch_loop body (l # ls) contacts =
     (let line = trim l
      in if line = [] then batch_loop body ls contacts
         else case body line contacts of
                Inl err \<Rightarrow> batch_loop body ls contacts
              | Inr contacts' \<Rightarrow> batch_loop body ls contacts')"

definition nonblank_lines :: "string \<Rightarrow> string list" where
  \<comment> \<open>\<open>rawData.split('\n').filter(line => line.trim())\<close>\<close>
  "nonblank_lines rawData = filter (\<lambda>line. trim line \<noteq> []) (split_on (CHR 0x0A) rawData)"

definition basic_try ::
  "(string \<Rightarrow> error + contact option) \<Rightarrow> string \<Rightarrow> contact list \<Rightarrow> error + contact list" where
  "basic_try parse line contacts =
     (case parse line of
        Inl err \<Rightarrow> Inl err
      | Inr None \<Rightarrow> Inr contacts
      | Inr (Some c) \<Rightarrow>
          if truthy (first_name c) \<and> truthy (phone_number c) then Inr (contacts @ [c])
          else Inr contacts)"

definition parseRawContactData_with ::
  "(string \<Rightarrow> error + contact option) \<Rightarrow> string \<Rightarrow> error + contact list" where
  "parseRawContactData_with parse rawData =
     Inr (batch_loop (basic_try parse) (nonblank_lines rawData) [])"

definition parseRawContactData :: "string \<Rightarrow> error + contact list" where
  "parseRawContactData = parseRawContactData_with (\<lambda>line. Inr (parseContactLine line))"

definition enhanced_try ::
  "(string \<Rightarrow> error + contact option) \<Rightarrow> (string \<Rightarrow> error + contact option) \<Rightarrow> string
     \<Rightarrow> contact list \<Rightarrow> error + contact list" where
  "enhanced_try parse alt line contacts =
     (case parse line of
        Inl err \<Rightarrow> Inl err
      | Inr first_try \<Rightarrow>
          (case (if first_try = None then alt line else Inr first_try) of
             Inl err \<Rightarrow> Inl err
           | Inr None \<Rightarrow> Inr contacts
           | Inr (Some c) \<Rightarrow>
               if validateParsedContact c then Inr (contacts @ [c]) else Inr contacts))"

definition parseRawContactDataEnhanced_with ::
  "(string \<Rightarrow> error + contact option) \<Rightarrow> (string \<Rightarrow> error + contact option) \<Rightarrow> string
     \<Rightarrow> error + contact list" where
  "parseRawContactDataEnhanced_with parse alt rawData =
     Inr (batch_loop (enhanced_try parse alt) (nonblank_lines rawData) [])"

definition parseRawContactDataEnhanced :: "string \<Rightarrow> error + contact list" where
  "parseRawContactDataEnhanced =
     parseRawContactDataEnhanced_with (\<lambda>line. Inr (parseContactLine line))
       (\<lambda>line. Inr (parseAlternativeFormats line))"

section \<open>The specification's words\<close>

text \<open>
  The definitions of this section follow the specification and not the code; the
  theorems below compare the code with them.
\<close>

definition weighted_score :: "contact \<Rightarrow> stored_contact \<Rightarrow> rat" where
  \<comment> \<open>+0.4 for similar phones, +0.4 for similar emails, +0.3 for similar full names\<close>
  "weighted_score c existing =
     (if arePhoneNumbersSimilar (phone_number c) (phone_number existing) then 4 / 10 else 0)
   + (if areEmailsSimilar (email c) (email existing) then 4 / 10 else 0)
   + (if areNamesSimilar (fullName existing) (fullName c) then 3 / 10 else 0)"

definition weighted_reasons :: "contact \<Rightarrow> stored_contact \<Rightarrow> string list" where
  "weighted_reasons c existing =
     (if arePhoneNumbersSimilar (phone_number c) (phone_number existing)
      then [''Phone number match''] else [])
   @ (if areEmailsSimilar (email c) (email existing) then [''Email match''] else [])
   @ (if areNamesSimilar (fullName existing) (fullName c) then [''Name similarity''] else [])"

definition weighted_match :: "contact \<Rightarrow> stored_contact \<Rightarrow> duplicate_match" where
  "weighted_match c existing =
     \<lparr>existingContact = existing, similarityScore = weighted_score c existing,
      matchReasons = weighted_reasons c existing,
      isExactMatch = (weighted_score c existing \<ge> 8 / 10)\<rparr>"

definition fill_value :: "string option \<Rightarrow> string option list \<Rightarrow> string option" where
  \<comment> \<open>the primary's value if non-empty, otherwise the first non-empty value of the list,
      otherwise the primary's value as it is\<close>
  "fill_value v vs =
     (if truthy v then v else case find truthy vs of Some w \<Rightarrow> w | None \<Rightarrow> v)"

definition in_given_order :: "nat list \<Rightarrow> stored_contact list \<Rightarrow> stored_contact list" where
  \<comment> \<open>the rows, arranged in the order their ids were given\<close>
  "in_given_order ids rows = concat (map (\<lambda>i. filter (\<lambda>r. contact_id r = i) rows) ids)"

definition first_non_null :: "(string \<Rightarrow> contact option) list \<Rightarrow> string \<Rightarrow> contact option" where
  \<comment> \<open>the strategies tried in the order of the list, the first non-null result returned\<close>
  "first_non_null strategies line =
     (case find (\<lambda>r. r \<noteq> None) (map (\<lambda>strategy. strategy line) strategies) of
        Some r \<Rightarrow> r
      | None \<Rightarrow> None)"

definition kept_contact :: "(string \<Rightarrow> error + contact option) \<Rightarrow> string \<Rightarrow> contact option" where
  \<comment> \<open>what one line contributes: its contact when the parser returns one with a non-empty
      \<open>first_name\<close> and a non-empty \<open>phone_number\<close>, nothing when it throws or fails\<close>
  "kept_contact parse l =
     (case parse (trim l) of
        Inl err \<Rightarrow> None
      | Inr None \<Rightarrow> None
      | Inr (Some c) \<Rightarrow>
          if truthy (first_name c) \<and> truthy (phone_number c) then Some c else None)"

section \<open>Example data\<close>

definition example_candidate :: contact where
  "example_candidate =
     \<lparr>first_name = Some ''Ann'', last_name = Some ''Lee'',
      phone_number = Some ''(555) 123-4567'', email = Some ''ann@x.com'',
      relationship_type = None, data_owner = None\<rparr>"

definition example_rows :: "stored_contact list" where
  "example_rows =
     [\<lparr>first_name = Some ''Bob'', last_name = Some ''Ray'',
       phone_number = Some ''555-123-4567'', email = None,
       relationship_type = Some ''Client'', data_owner = None,
       contact_id = 1, contact_notes = None\<rparr>,
      \<lparr>first_name = None, last_name = None,
       phone_number = Some ''+1 555 123 4567'', email = Some ''ANN@x.com'',
       relationship_type = Some ''Other'', data_owner = None,
       contact_id = 2, contact_notes = None\<rparr>,
      \<lparr>first_name = Some ''Zed'', last_name = Some ''Fox'',
       phone_number = Some ''999-888-7777'', email = Some ''zed@y.org'',
       relationship_type = Some ''Lead'', data_owner = None,
       contact_id = 3, contact_notes = None\<rparr>]"

definition violates_unique :: "stored_contact list \<Rightarrow> nat \<Rightarrow> stored_contact \<Rightarrow> bool" where
  \<comment> \<open>\<open>UNIQUE(phone_number, email)\<close> of the \<open>contacts\<close> table (database.js): another row
      already holds the same pair; a pair with a \<open>NULL\<close> never collides\<close>
  "violates_unique table i m =
     list_ex (\<lambda>r. contact_id r \<noteq> i \<and> phone_number m \<noteq> None \<and> email m \<noteq> None
                 \<and> phone_number r = phone_number m \<and> email r = email m) table"

definition scan_rows :: "stored_contact list \<Rightarrow> executeQuery" where
  \<comment> \<open>a database for the merger, holding \<open>table\<close>: a \<open>SELECT\<close> yields the rows it asks for in
      the order the table stores them, as a scan does; the \<open>UPDATE\<close> is rejected when the
      new values break \<open>first_name TEXT NOT NULL\<close>, \<open>phone_number TEXT NOT NULL\<close> or
      \<open>UNIQUE(phone_number, email)\<close>, and yields no rows otherwise, as the \<open>DELETE\<close> does;
      the detector's prefilter is not issued against it\<close>
  "scan_rows table q =
     (case q of
        SelectContact i \<Rightarrow> Inr (filter (\<lambda>r. contact_id r = i) table)
      | SelectContactsIn ids \<Rightarrow> Inr (filter (\<lambda>r. contact_id r \<in> set ids) table)
      | UpdateContact i m \<Rightarrow>
          if first_name m = None \<or> phone_number m = None
          then Inl (Error ''SQLITE_CONSTRAINT: NOT NULL constraint failed'')
          else if violates_unique table i m
          then Inl (Error ''SQLITE_CONSTRAINT: UNIQUE constraint failed'')
          else Inr []
      | DeleteContactsIn ids \<Rightarrow> Inr []
      | FindCandidates c excludeId \<Rightarrow> Inr [])"

definition example_table :: "stored_contact list" where
  \<comment> \<open>three rows with distinct phones, so that the merged primary keeps a pair
      \<open>(phone_number, email)\<close> of its own\<close>
  "example_table =
     [\<lparr>first_name = Some ''A'', last_name = Some [],
       phone_number = Some ''+15551230001'', email = None,
       relationship_type = Some ''Other'', data_owner = None,
       contact_id = 1, contact_notes = None\<rparr>,
      \<lparr>first_name = Some [], last_name = Some ''Two'',
       phone_number = Some ''+15551230002'', email = Some ''two@x.com'',
       relationship_type = Some ''Client'', data_owner = None,
       contact_id = 2, contact_notes = Some ''met in May''\<rparr>,
      \<lparr>first_name = Some ''C'', last_name = Some ''Three'',
       phone_number = Some ''+15551230003'', email = Some ''three@x.com'',
       relationship_type = Some ''Lead'', data_owner = Some ''Kim'',
       contact_id = 3, contact_notes = None\<rparr>]"

definition example_block :: string where
  \<comment> \<open>five lines: comma-separated, malformed, space-separated, blank, tab-separated\<close>
  "example_block =
     ''John Doe, +1-123-456-7890, john@example.com, Client'' @ [CHR 0x0A] @
     ''???'' @ [CHR 0x0A] @
     ''Jane Smith 987-654-3210'' @ [CHR 0x0A] @
     ''   '' @ [CHR 0x0A] @
     ''Raj Patel'' @ [CHR 0x09] @ ''91 98765 43210''"

definition example_contacts :: "contact list" where
  "example_contacts =
     [\<lparr>first_name = Some ''John'', last_name = Some ''Doe'',
       phone_number = Some ''+11234567890'', email = Some ''john@example.com'',
       relationship_type = Some ''Client'', data_owner = None\<rparr>,
      \<lparr>first_name = Some ''Jane'', last_name = Some ''Smith'',
       phone_number = Some ''+19876543210'', email = None,
       relationship_type = Some ''Other'', data_owner = None\<rparr>,
      \<lparr>first_name = Some ''Raj'', last_name = Some ''Patel'',
       phone_number = Some ''+919876543210'', email = None,
       relationship_type = None, data_owner = None\<rparr>]"

definition throwing_parser :: "string \<Rightarrow> error + contact option" where
  \<comment> \<open>a line parser that throws on the line \<open>???\<close>\<close>
  "throwing_parser line =
     (if line = ''???'' then Inl (Error ''boom'') else Inr (parseContactLine line))"

section \<open>The similarity scorer\<close>

lemma str_includes_Nil: "str_includes s []"
  by (induction s) (simp_all add: startsWith_def)

lemma levenshtein_kitten: "levenshtein ''kitten'' ''sitting'' = 3"
  by code_simp

lemma calculateSimilarity_kitten: "calculateSimilarity ''Kitten '' ''sitting'' = 4 / 7"
  by code_simp

text \<open>
  C6, as the code has it. \<open>calculateSimilarity\<close> returns 0 as soon as one argument is the
  empty string. For every non-empty string \<open>a\<close>, \<open>calculateSimilarity(a, a)\<close> is 1 and
  \<open>calculateSimilarity('', a)\<close> is 0; \<open>calculateSimilarity('', '')\<close> is 0.
\<close>

theorem calculateSimilarity_same_nonempty:
  "(a \<noteq> [] \<longrightarrow> calculateSimilarity a a = 1 \<and> calculateSimilarity [] a = 0)
   \<and> calculateSimilarity [] [] = 0"
  by (simp add: calculateSimilarity_def)

theorem calculateSimilarity_same_nonempty_witness:
  "''Ann'' \<noteq> [] \<and> calculateSimilarity ''Ann'' ''Ann'' = 1 \<and> calculateSimilarity [] ''Ann'' = 0
   \<and> calculateSimilarity [] [] = 0"
  using calculateSimilarity_same_nonempty [of "''Ann''"] by simp

text \<open>
  C6 as stated fails at the empty string: \<open>calculateSimilarity('', '')\<close> is 0 and not 1.
\<close>

theorem calculateSimilarity_empty_counterexample:
  "calculateSimilarity [] [] = 0 \<and> calculateSimilarity [] [] \<noteq> 1"
  by (simp add: calculateSimilarity_def)

lemma filter_drop_same: "\<forall>x\<in>set xs. P x \<Longrightarrow> filter P (drop n xs) = drop n xs"
  by (meson filter_True in_set_dropD)

text \<open>
  C9: \<open>normalizePhoneNumber\<close> is idempotent, for every string \<open>x\<close>:
  \<open>normalizePhoneNumber(normalizePhoneNumber(x))\<close> equals \<open>normalizePhoneNumber(x)\<close>.
\<close>

theorem normalizePhoneNumber_idempotent:
  "normalizePhoneNumber (normalizePhoneNumber x) = normalizePhoneNumber x"
proof (cases "length (filter is_digit x) = 11 \<and> startsWith (filter is_digit x) ''1''")
  case True
  have "filter is_digit (drop 1 (filter is_digit x)) = drop 1 (filter is_digit x)"
    by (rule filter_drop_same) simp
  with True show ?thesis
    by (auto simp add: normalizePhoneNumber_def Let_def)
next
  case False
  then show ?thesis
    by (auto simp add: normalizePhoneNumber_def Let_def)
qed

theorem normalizePhoneNumber_idempotent_witness:
  "normalizePhoneNumber (normalizePhoneNumber ''+1 (555) 123-4567'') = ''5551234567''"
  using normalizePhoneNumber_idempotent [of "''+1 (555) 123-4567''"]
  by (simp add: normalizePhoneNumber_def is_digit_def startsWith_def)

lemma normalizePhoneNumber_no_digit:
  "\<forall>c\<in>set p. \<not> is_digit c \<Longrightarrow> normalizePhoneNumber p = []"
  by (simp add: normalizePhoneNumber_def Let_def)

text \<open>
  C10: for non-empty strings \<open>p1\<close> and \<open>p2\<close> of which at least one holds no digit,
  \<open>arePhoneNumbersSimilar(p1, p2)\<close> is true: that string normalizes to the empty
  string, which every string includes.
\<close>

theorem arePhoneNumbersSimilar_no_digit:
  assumes "p1 \<noteq> []" and "p2 \<noteq> []"
    and "(\<forall>c\<in>set p1. \<not> is_digit c) \<or> (\<forall>c\<in>set p2. \<not> is_digit c)"
  shows "arePhoneNumbersSimilar (Some p1) (Some p2)"
  using assms
  by (auto simp add: arePhoneNumbersSimilar_def Let_def normalizePhoneNumber_no_digit
        str_includes_Nil)

theorem arePhoneNumbersSimilar_no_digit_witness:
  "normalizePhoneNumber ''n/a'' = [] \<and> arePhoneNumbersSimilar (Some ''n/a'') (Some ''555-1234'')"
  using arePhoneNumbersSimilar_no_digit [of "''n/a''" "''555-1234''"]
  by (simp add: is_digit_def normalizePhoneNumber_def)

section \<open>The duplicate detector\<close>

lemma phones_similar_truthy: "arePhoneNumbersSimilar a b \<Longrightarrow> truthy a \<and> truthy b"
  by (auto simp add: arePhoneNumbersSimilar_def truthy_def split: option.splits if_splits)

lemma emails_similar_truthy: "areEmailsSimilar a b \<Longrightarrow> truthy a \<and> truthy b"
  by (auto simp add: areEmailsSimilar_def truthy_def split: option.splits if_splits)

lemma names_similar_nonempty: "areNamesSimilar a b \<Longrightarrow> a \<noteq> [] \<and> b \<noteq> []"
  by (auto simp add: areNamesSimilar_def split: if_splits)

lemma score_contact_weighted:
  "score_contact c e = (weighted_score c e, weighted_reasons c e)"
proof -
  have p: "\<not> (truthy (phone_number c) \<and> truthy (phone_number e)) \<Longrightarrow>
           \<not> arePhoneNumbersSimilar (phone_number c) (phone_number e)"
    using phones_similar_truthy by blast
  have m: "\<not> (truthy (email c) \<and> truthy (email e)) \<Longrightarrow>
           \<not> areEmailsSimilar (email c) (email e)"
    using emails_similar_truthy by blast
  have n: "\<not> (fullName e \<noteq> [] \<and> fullName c \<noteq> []) \<Longrightarrow>
           \<not> areNamesSimilar (fullName e) (fullName c)"
    using names_similar_nonempty by blast
  show ?thesis
    unfolding score_contact_def weighted_score_def weighted_reasons_def Let_def
    using p m n by (simp split: if_splits)
qed

lemma detect_loop_filter:
  "detect_loop c rows dups =
     dups @ map (weighted_match c) (filter (\<lambda>e. weighted_score c e \<ge> 4 / 10) rows)"
  by (induction rows arbitrary: dups)
     (simp_all add: score_contact_weighted weighted_match_def)

text \<open>
  C1: when the prefilter query yields \<open>rows\<close>, \<open>detectDuplicates\<close> gives every row the
  score +0.4 if the phones are similar, +0.4 if the emails are similar and +0.3 if the
  full names (\<open>first last\<close>, trimmed) are similar. A row is reported if and only if its
  score is at least 0.4, with that score, and \<open>isExactMatch\<close> is true if and only if the
  score is at least 0.8; the reported matches are sorted by descending score. A row
  that matches on phone and on email and not on the name scores exactly 0.8 and is an
  exact match.
\<close>

theorem detectDuplicates_weighted_score:
  assumes "exec (FindCandidates c excludeId) = Inr rows"
  shows "\<exists>res. detectDuplicates exec c excludeId = Inr res
     \<and> duplicates res = sort_key (\<lambda>d. - similarityScore d)
          (map (weighted_match c) (filter (\<lambda>e. weighted_score c e \<ge> 4 / 10) rows))
     \<and> (\<forall>e. (\<exists>d \<in> set (duplicates res). existingContact d = e)
             = (e \<in> set rows \<and> weighted_score c e \<ge> 4 / 10))
     \<and> (\<forall>d \<in> set (duplicates res).
            similarityScore d = weighted_score c (existingContact d)
          \<and> isExactMatch d = (weighted_score c (existingContact d) \<ge> 8 / 10))
     \<and> (\<forall>e. arePhoneNumbersSimilar (phone_number c) (phone_number e)
            \<and> areEmailsSimilar (email c) (email e)
            \<and> \<not> areNamesSimilar (fullName e) (fullName c)
            \<longrightarrow> weighted_score c e = 8 / 10 \<and> isExactMatch (weighted_match c e))"
proof -
  let ?ds = "sort_key (\<lambda>d. - similarityScore d)
          (map (weighted_match c) (filter (\<lambda>e. weighted_score c e \<ge> 4 / 10) rows))"
  let ?res = "\<lparr>hasDuplicates = (length ?ds > 0), duplicates = ?ds,
               totalDuplicates = length ?ds\<rparr>"
  have r: "detectDuplicates exec c excludeId = Inr ?res"
    using assms unfolding detectDuplicates_def detect_loop_filter Let_def
    by (simp del: length_greater_0_conv)
  have dr: "duplicates ?res = ?ds"
    by simp
  have s: "set ?ds = weighted_match c ` {e \<in> set rows. weighted_score c e \<ge> 4 / 10}"
    by simp
  have a: "\<forall>e. (\<exists>d \<in> set (duplicates ?res). existingContact d = e)
             = (e \<in> set rows \<and> weighted_score c e \<ge> 4 / 10)"
    unfolding dr s by (auto simp add: weighted_match_def)
  have b: "\<forall>d \<in> set (duplicates ?res).
            similarityScore d = weighted_score c (existingContact d)
          \<and> isExactMatch d = (weighted_score c (existingContact d) \<ge> 8 / 10)"
    unfolding dr s by (auto simp add: weighted_match_def)
  have d: "\<forall>e. arePhoneNumbersSimilar (phone_number c) (phone_number e)
            \<and> areEmailsSimilar (email c) (email e)
            \<and> \<not> areNamesSimilar (fullName e) (fullName c)
            \<longrightarrow> weighted_score c e = 8 / 10 \<and> isExactMatch (weighted_match c e)"
    by (simp add: weighted_score_def weighted_match_def)
  from r dr a b d show ?thesis
    by blast
qed

lemma detectDuplicates_example:
  "detectDuplicates (\<lambda>q. Inr example_rows) example_candidate None =
     Inr \<lparr>hasDuplicates = True,
          duplicates =
            [\<lparr>existingContact = example_rows ! 1, similarityScore = 8 / 10,
              matchReasons = [''Phone number match'', ''Email match''], isExactMatch = True\<rparr>,
             \<lparr>existingContact = example_rows ! 0, similarityScore = 4 / 10,
              matchReasons = [''Phone number match''], isExactMatch = False\<rparr>],
          totalDuplicates = 2\<rparr>"
  by code_simp

theorem detectDuplicates_weighted_score_witness:
  "(\<lambda>q. Inr example_rows) (FindCandidates example_candidate None) = Inr example_rows
   \<and> map (weighted_score example_candidate) example_rows = [4 / 10, 8 / 10, 0]
   \<and> arePhoneNumbersSimilar (phone_number example_candidate) (phone_number (example_rows ! 1))
   \<and> areEmailsSimilar (email example_candidate) (email (example_rows ! 1))
   \<and> \<not> areNamesSimilar (fullName (example_rows ! 1)) (fullName example_candidate)
   \<and> (\<exists>res. detectDuplicates (\<lambda>q. Inr example_rows) example_candidate None = Inr res
     \<and> duplicates res = sort_key (\<lambda>d. - similarityScore d)
          (map (weighted_match example_candidate)
             (filter (\<lambda>e. weighted_score example_candidate e \<ge> 4 / 10) example_rows))
     \<and> (\<forall>e. (\<exists>d \<in> set (duplicates res). existingContact d = e)
             = (e \<in> set example_rows \<and> weighted_score example_candidate e \<ge> 4 / 10))
     \<and> (\<forall>d \<in> set (duplicates res).
            similarityScore d = weighted_score example_candidate (existingContact d)
          \<and> isExactMatch d = (weighted_score example_candidate (existingContact d) \<ge> 8 / 10))
     \<and> (\<forall>e. arePhoneNumbersSimilar (phone_number example_candidate) (phone_number e)
            \<and> areEmailsSimilar (email example_candidate) (email e)
            \<and> \<not> areNamesSimilar (fullName e) (fullName example_candidate)
            \<longrightarrow> weighted_score example_candidate e = 8 / 10
              \<and> isExactMatch (weighted_match example_candidate e)))"
proof -
  have h: "(\<lambda>q. Inr example_rows) (FindCandidates example_candidate None) = Inr example_rows"
    by simp
  have a: "map (weighted_score example_candidate) example_rows = [4 / 10, 8 / 10, 0]"
    by code_simp
  have b: "arePhoneNumbersSimilar (phone_number example_candidate)
             (phone_number (example_rows ! 1))"
    by code_simp
  have c: "areEmailsSimilar (email example_candidate) (email (example_rows ! 1))"
    by code_simp
  have d: "\<not> areNamesSimilar (fullName (example_rows ! 1)) (fullName example_candidate)"
    by code_simp
  note t = detectDuplicates_weighted_score [OF h]
  show ?thesis
    by (intro conjI) (rule h a b c d t)+
qed

text \<open>
  C2, as the code has it. When the prefilter query is rejected with an error,
  \<open>detectDuplicates\<close> catches and logs it and resolves with the empty result: no
  duplicates, \<open>hasDuplicates\<close> false, \<open>totalDuplicates\<close> 0.
\<close>

theorem detectDuplicates_swallows_error:
  assumes "exec (FindCandidates c excludeId) = Inl err"
  shows "detectDuplicates exec c excludeId =
           Inr \<lparr>hasDuplicates = False, duplicates = [], totalDuplicates = 0\<rparr>"
  using assms by (simp add: detectDuplicates_def)

theorem detectDuplicates_swallows_error_witness:
  "detectDuplicates (\<lambda>q. Inl (Error ''SQLITE_BUSY'')) example_candidate None =
           Inr \<lparr>hasDuplicates = False, duplicates = [], totalDuplicates = 0\<rparr>"
  using detectDuplicates_swallows_error
          [of "\<lambda>q. Inl (Error ''SQLITE_BUSY'')" example_candidate None "Error ''SQLITE_BUSY''"]
  by simp

text \<open>
  C2 as stated fails: with a database that rejects every query with \<open>SQLITE_BUSY\<close>,
  \<open>detectDuplicates\<close> does not reject with that error.
\<close>

theorem detectDuplicates_propagates_counterexample:
  "detectDuplicates (\<lambda>q. Inl (Error ''SQLITE_BUSY'')) example_candidate None
     \<noteq> Inl (Error ''SQLITE_BUSY'')"
  by (simp add: detectDuplicates_def)

section \<open>The merger\<close>

lemma fill_value_step:
  "fill_value (if \<not> truthy v \<and> truthy w then w else v) ws = fill_value v (w # ws)"
  by (simp add: fill_value_def)

lemma merge_step_fields:
  "first_name (merge_step m d) =
     (if \<not> truthy (first_name m) \<and> truthy (first_name d) then first_name d else first_name m)"
  "last_name (merge_step m d) =
     (if \<not> truthy (last_name m) \<and> truthy (last_name d) then last_name d else last_name m)"
  "phone_number (merge_step m d) =
     (if \<not> truthy (phone_number m) \<and> truthy (phone_number d) then phone_number d
      else phone_number m)"
  "email (merge_step m d) =
     (if \<not> truthy (email m) \<and> truthy (email d) then email d else email m)"
  "relationship_type (merge_step m d) =
     (if \<not> truthy (relationship_type m) \<and> truthy (relationship_type d)
      then relationship_type d else relationship_type m)"
  "data_owner (merge_step m d) =
     (if \<not> truthy (data_owner m) \<and> truthy (data_owner d) then data_owner d
      else data_owner m)"
  by (simp_all add: merge_step_def Let_def)

lemma merge_loop_first_name:
  "first_name (merge_loop m rows) = fill_value (first_name m) (map first_name rows)"
proof (induction rows arbitrary: m)
  case Nil
  show ?case by (simp add: fill_value_def)
next
  case (Cons d rows)
  show ?case
    using Cons [of "merge_step m d"] by (simp add: merge_step_fields fill_value_step)
qed

lemma merge_loop_last_name:
  "last_name (merge_loop m rows) = fill_value (last_name m) (map last_name rows)"
proof (induction rows arbitrary: m)
  case Nil
  show ?case by (simp add: fill_value_def)
next
  case (Cons d rows)
  show ?case
    using Cons [of "merge_step m d"] by (simp add: merge_step_fields fill_value_step)
qed

lemma merge_loop_phone_number:
  "phone_number (merge_loop m rows) = fill_value (phone_number m) (map phone_number rows)"
proof (induction rows arbitrary: m)
  case Nil
  show ?case by (simp add: fill_value_def)
next
  case (Cons d rows)
  show ?case
    using Cons [of "merge_step m d"] by (simp add: merge_step_fields fill_value_step)
qed

lemma merge_loop_email:
  "email (merge_loop m rows) = fill_value (email m) (map email rows)"
proof (induction rows arbitrary: m)
  case Nil
  show ?case by (simp add: fill_value_def)
next
  case (Cons d rows)
  show ?case
    using Cons [of "merge_step m d"] by (simp add: merge_step_fields fill_value_step)
qed

lemma merge_loop_relationship_type:
  "relationship_type (merge_loop m rows) =
     fill_value (relationship_type m) (map relationship_type rows)"
proof (induction rows arbitrary: m)
  case Nil
  show ?case by (simp add: fill_value_def)
next
  case (Cons d rows)
  show ?case
    using Cons [of "merge_step m d"] by (simp add: merge_step_fields fill_value_step)
qed

lemma merge_loop_data_owner:
  "data_owner (merge_loop m rows) = fill_value (data_owner m) (map data_owner rows)"
proof (induction rows arbitrary: m)
  case Nil
  show ?case by (simp add: fill_value_def)
next
  case (Cons d rows)
  show ?case
    using Cons [of "merge_step m d"] by (simp add: merge_step_fields fill_value_step)
qed

lemmas merge_loop_fields =
  merge_loop_first_name merge_loop_last_name merge_loop_phone_number merge_loop_email
  merge_loop_relationship_type merge_loop_data_owner

text \<open>
  C5, as the code has it. When \<open>mergeContacts\<close> returns, the primary is the first row of
  the query by \<open>primaryContactId\<close> and each of \<open>first_name\<close>, \<open>last_name\<close>, \<open>phone_number\<close>,
  \<open>email\<close>, \<open>relationship_type\<close> and \<open>data_owner\<close> of the merged contact is the primary's
  value if that is non-empty, and otherwise the first non-empty value among the
  duplicate rows in the order in which the query \<open>WHERE id IN (...)\<close> returned them.
\<close>

theorem mergeContacts_fill_if_missing:
  assumes "mergeContacts exec primaryContactId duplicateContactIds = Inr res"
  shows "\<exists>primary others rows.
           exec (SelectContact primaryContactId) = Inr (primary # others)
         \<and> exec (SelectContactsIn duplicateContactIds) = Inr rows
         \<and> first_name (mergedContact res) = fill_value (first_name primary) (map first_name rows)
         \<and> last_name (mergedContact res) = fill_value (last_name primary) (map last_name rows)
         \<and> phone_number (mergedContact res)
             = fill_value (phone_number primary) (map phone_number rows)
         \<and> email (mergedContact res) = fill_value (email primary) (map email rows)
         \<and> relationship_type (mergedContact res)
             = fill_value (relationship_type primary) (map relationship_type rows)
         \<and> data_owner (mergedContact res)
             = fill_value (data_owner primary) (map data_owner rows)"
  using assms
  by (auto simp add: mergeContacts_def Let_def merge_loop_fields
        split: sum.splits list.splits)

lemma mergeContacts_succeeds:
  assumes "exec (SelectContact primaryContactId) = Inr (primary # others)"
    and "exec (SelectContactsIn duplicateContactIds) = Inr rows"
    and "exec (UpdateContact primaryContactId (merge_loop primary rows)) = Inr updated"
    and "exec (DeleteContactsIn duplicateContactIds) = Inr deleted"
  shows "mergeContacts exec primaryContactId duplicateContactIds =
           Inr \<lparr>success = True, mergedContact = merge_loop primary rows,
                deletedCount = length duplicateContactIds\<rparr>"
  using assms by (simp add: mergeContacts_def)

lemma mergeContacts_not_found:
  assumes "exec (SelectContact primaryContactId) = Inr []"
  shows "mergeContacts exec primaryContactId duplicateContactIds =
           Inl (Error ''Primary contact not found'')"
  using assms by (simp add: mergeContacts_def)

lemma mergeContacts_example:
  "mergeContacts (scan_rows example_table) 1 [3, 2] =
     Inr \<lparr>success = True,
          mergedContact =
            \<lparr>first_name = Some ''A'', last_name = Some ''Two'',
             phone_number = Some ''+15551230001'', email = Some ''two@x.com'',
             relationship_type = Some ''Other'', data_owner = Some ''Kim'',
             contact_id = 1, contact_notes = Some ''Merged from contact ID 2: met in May''\<rparr>,
          deletedCount = 2\<rparr>"
  by code_simp

theorem mergeContacts_fill_if_missing_witness:
  "mergeContacts (scan_rows example_table) 1 [3, 2] =
     Inr \<lparr>success = True,
          mergedContact =
            \<lparr>first_name = Some ''A'', last_name = Some ''Two'',
             phone_number = Some ''+15551230001'', email = Some ''two@x.com'',
             relationship_type = Some ''Other'', data_owner = Some ''Kim'',
             contact_id = 1, contact_notes = Some ''Merged from contact ID 2: met in May''\<rparr>,
          deletedCount = 2\<rparr>
   \<and> (\<exists>primary others rows.
           scan_rows example_table (SelectContact 1) = Inr (primary # others)
         \<and> scan_rows example_table (SelectContactsIn [3, 2]) = Inr rows
         \<and> Some ''A'' = fill_value (first_name primary) (map first_name rows)
         \<and> Some ''Two'' = fill_value (last_name primary) (map last_name rows)
         \<and> Some ''+15551230001'' = fill_value (phone_number primary) (map phone_number rows)
         \<and> Some ''two@x.com'' = fill_value (email primary) (map email rows)
         \<and> Some ''Other''
             = fill_value (relationship_type primary) (map relationship_type rows)
         \<and> Some ''Kim'' = fill_value (data_owner primary) (map data_owner rows))"
  using mergeContacts_fill_if_missing [OF mergeContacts_example] mergeContacts_example
  by simp

text \<open>
  C5 as stated fails on the order: the ids are given as 3, 2, the table scan returns
  row 2 before row 3, and the primary's missing email is filled from row 2, where the
  order the ids were given in asks for the email of row 3. The merged primary breaks no
  constraint of the table, so the \<open>UPDATE\<close> goes through and the call returns.
\<close>

theorem mergeContacts_given_order_counterexample:
  "scan_rows example_table (SelectContactsIn [3, 2]) = Inr [example_table ! 1, example_table ! 2]
   \<and> \<not> violates_unique example_table 1
         ((example_table ! 0)\<lparr>last_name := Some ''Two'', email := Some ''two@x.com'',
            data_owner := Some ''Kim'',
            contact_notes := Some ''Merged from contact ID 2: met in May''\<rparr>)
   \<and> (case mergeContacts (scan_rows example_table) 1 [3, 2] of
        Inl err \<Rightarrow> None
      | Inr res \<Rightarrow> email (mergedContact res)) = Some ''two@x.com''
   \<and> fill_value (email (example_table ! 0))
        (map email (in_given_order [3, 2] example_table)) = Some ''three@x.com''"
  by code_simp

lemma mergeContacts_unique_rejected:
  "mergeContacts
     (scan_rows (map (\<lambda>r. r\<lparr>phone_number := Some ''+15551234567''\<rparr>) example_table))
     1 [3, 2] = Inl (Error ''SQLITE_CONSTRAINT: UNIQUE constraint failed'')"
  by code_simp

section \<open>The line parser\<close>

lemma phonePatterns_examples:
  "map (\<lambda>pattern. rx_first_match pattern ''call (123) 456-7890 now'') phonePatterns
     = [Some ''(123) 456-7890'', None]
   \<and> map (\<lambda>pattern. rx_first_match pattern ''tel +91 987.654.3210'') phonePatterns
     = [Some ''+91 987.654.3210'', Some ''+91 987.654.3210'']
   \<and> map (\<lambda>pattern. rx_first_match pattern ''no number 12345'') phonePatterns = [None, None]"
  by code_simp

lemma emailPattern_examples:
  "rx_first_match emailPattern ''mail a.b@c.example.com, please'' = Some ''a.b@c.example.com''
   \<and> rx_first_match emailPattern ''a@b'' = None"
  by code_simp

lemma validateEmail_examples:
  "validateEmail ''john@example.com'' = Some ''john@example.com''
   \<and> validateEmail ''john@example'' = None
   \<and> validateEmail ''john doe@example.com'' = None
   \<and> validateEmail [] = None"
  by code_simp

lemma formatPhoneNumber_examples:
  "formatPhoneNumber ''(123) 456-7890'' = Some ''+11234567890''
   \<and> formatPhoneNumber ''1-123-456-7890'' = Some ''+11234567890''
   \<and> formatPhoneNumber ''+91 98765 43210'' = Some ''+919876543210''
   \<and> formatPhoneNumber ''555-1234'' = Some ''555-1234''
   \<and> formatPhoneNumber [] = None"
  by code_simp

lemma split_examples:
  "split_on CHR '','' ''a,,b,'' = [''a'', [], ''b'', []]
   \<and> split_ws [] '' a  b '' = [[], ''a'', ''b'', []]
   \<and> split_str '' - '' [] ''a - b-c - '' = [''a'', ''b-c'', []]
   \<and> replace_first ''abcabc'' ''bc'' = ''aabc''"
  by code_simp

text \<open>
  C8: \<open>parseContactLine\<close> returns the first non-null result of the strategies
  comma-separated, tab-separated, space-separated and pattern-based, tried in that
  order; for the line \<open>John Doe, +1-123-456-7890, john@example.com, Client\<close> that is the
  result of the comma strategy, with first name John, last name Doe, phone
  \<open>+11234567890\<close>, email \<open>john@example.com\<close> and relationship type Client.
\<close>

theorem parseContactLine_first_non_null:
  "parseContactLine line =
     first_non_null
       [parseCommaSeparated, parseTabSeparated, parseSpaceSeparated, parseByPattern] line
   \<and> parseCommaSeparated ''John Doe, +1-123-456-7890, john@example.com, Client'' =
       Some \<lparr>first_name = Some ''John'', last_name = Some ''Doe'',
             phone_number = Some ''+11234567890'', email = Some ''john@example.com'',
             relationship_type = Some ''Client'', data_owner = None\<rparr>
   \<and> parseContactLine ''John Doe, +1-123-456-7890, john@example.com, Client'' =
       Some \<lparr>first_name = Some ''John'', last_name = Some ''Doe'',
             phone_number = Some ''+11234567890'', email = Some ''john@example.com'',
             relationship_type = Some ''Client'', data_owner = None\<rparr>"
proof (intro conjI)
  show "parseContactLine line =
     first_non_null
       [parseCommaSeparated, parseTabSeparated, parseSpaceSeparated, parseByPattern] line"
    by (simp add: parseContactLine_def first_non_null_def Let_def)
  show "parseCommaSeparated ''John Doe, +1-123-456-7890, john@example.com, Client'' =
       Some \<lparr>first_name = Some ''John'', last_name = Some ''Doe'',
             phone_number = Some ''+11234567890'', email = Some ''john@example.com'',
             relationship_type = Some ''Client'', data_owner = None\<rparr>"
    by code_simp
  show "parseContactLine ''John Doe, +1-123-456-7890, john@example.com, Client'' =
       Some \<lparr>first_name = Some ''John'', last_name = Some ''Doe'',
             phone_number = Some ''+11234567890'', email = Some ''john@example.com'',
             relationship_type = Some ''Client'', data_owner = None\<rparr>"
    by code_simp
qed

lemma first_non_null_jane:
  "first_non_null
     [parseCommaSeparated, parseTabSeparated, parseSpaceSeparated, parseByPattern]
     ''Jane Smith 987-654-3210'' =
   Some \<lparr>first_name = Some ''Jane'', last_name = Some ''Smith'',
         phone_number = Some ''+19876543210'', email = None,
         relationship_type = Some ''Other'', data_owner = None\<rparr>"
  by code_simp

theorem parseContactLine_first_non_null_witness:
  "parseCommaSeparated ''Jane Smith 987-654-3210'' = None
   \<and> parseTabSeparated ''Jane Smith 987-654-3210'' = None
   \<and> parseSpaceSeparated ''Jane Smith 987-654-3210'' = parseContactLine ''Jane Smith 987-654-3210''
   \<and> parseContactLine ''Jane Smith 987-654-3210'' =
       Some \<lparr>first_name = Some ''Jane'', last_name = Some ''Smith'',
             phone_number = Some ''+19876543210'', email = None,
             relationship_type = Some ''Other'', data_owner = None\<rparr>"
proof -
  have a: "parseCommaSeparated ''Jane Smith 987-654-3210'' = None"
    by code_simp
  have b: "parseTabSeparated ''Jane Smith 987-654-3210'' = None"
    by code_simp
  have c: "parseSpaceSeparated ''Jane Smith 987-654-3210'' =
       Some \<lparr>first_name = Some ''Jane'', last_name = Some ''Smith'',
             phone_number = Some ''+19876543210'', email = None,
             relationship_type = Some ''Other'', data_owner = None\<rparr>"
    by code_simp
  show ?thesis
    using parseContactLine_first_non_null [of "''Jane Smith 987-654-3210''"]
      first_non_null_jane a b c
    by simp
qed

text \<open>
  C4, where the code departs from it. On the line \<open>John 123-456-7890\<close> the first phone
  pattern matches \<open>123-456-7890\<close>, but \<open>parseByPattern\<close> removes the formatted number
  \<open>+11234567890\<close>, which the line does not hold, so the matched text stays in the name:
  the last name is \<open>123-456-7890\<close>. \<open>parseContactLine\<close> reaches this strategy on that
  line.
\<close>

theorem parseByPattern_keeps_matched_phone:
  "rx_first_match (phonePatterns ! 0) ''John 123-456-7890'' = Some ''123-456-7890''
   \<and> parseByPattern ''John 123-456-7890'' =
       Some \<lparr>first_name = Some ''John'', last_name = Some ''123-456-7890'',
             phone_number = Some ''+11234567890'', email = None,
             relationship_type = Some ''Other'', data_owner = None\<rparr>
   \<and> parseContactLine ''John 123-456-7890'' = parseByPattern ''John 123-456-7890''"
  by code_simp

section \<open>The batch parser\<close>

lemma batch_loop_basic:
  "batch_loop (basic_try parse) ls acc =
     acc @ List.map_filter (kept_contact parse) (filter (\<lambda>l. trim l \<noteq> []) ls)"
  by (induction ls arbitrary: acc)
     (simp_all add: basic_try_def kept_contact_def List.map_filter_simps Let_def
        split: sum.splits option.splits)

text \<open>
  C7: whatever the line parser does on a line (return a contact, return null or
  throw), batch parsing returns, and its output is the list, in the order of the
  lines, of the contacts of the non-blank lines on which the parser returned a contact
  with non-empty \<open>first_name\<close> and non-empty \<open>phone_number\<close>; a line on which it threw or
  failed contributes nothing. \<open>parseRawContactData\<close> is this with \<open>parseContactLine\<close>.
\<close>

theorem parseRawContactData_lines:
  "parseRawContactData_with parse rawData =
     Inr (List.map_filter (kept_contact parse) (nonblank_lines rawData))
   \<and> parseRawContactData rawData =
     Inr (List.map_filter (kept_contact (\<lambda>line. Inr (parseContactLine line)))
            (nonblank_lines rawData))"
  by (simp add: parseRawContactData_def parseRawContactData_with_def batch_loop_basic
        nonblank_lines_def)

theorem parseRawContactData_lines_witness:
  "parseRawContactData_with throwing_parser example_block = Inr example_contacts
   \<and> parseRawContactData example_block = Inr example_contacts"
proof -
  have a: "List.map_filter (kept_contact throwing_parser) (nonblank_lines example_block)
             = example_contacts"
    by code_simp
  have b: "List.map_filter (kept_contact (\<lambda>line. Inr (parseContactLine line)))
             (nonblank_lines example_block) = example_contacts"
    by code_simp
  show ?thesis
    using parseRawContactData_lines [of throwing_parser example_block] a b by simp
qed

lemma batch_loop_all:
  assumes "\<forall>c\<in>set acc. P c"
    and "\<And>line cs cs'. body line cs = Inr cs' \<Longrightarrow> \<forall>c\<in>set cs. P c \<Longrightarrow> \<forall>c\<in>set cs'. P c"
  shows "\<forall>c\<in>set (batch_loop body ls acc). P c"
  using assms(1)
proof (induction ls arbitrary: acc)
  case Nil
  then show ?case by simp
next
  case (Cons l ls)
  show ?case
  proof (cases "trim l = []")
    case True
    with Cons show ?thesis by simp
  next
    case False
    show ?thesis
    proof (cases "body (trim l) acc")
      case (Inl err)
      with False Cons show ?thesis by simp
    next
      case (Inr cs')
      with assms(2) Cons.prems have "\<forall>c\<in>set cs'. P c" by blast
      with Cons.IH have "\<forall>c\<in>set (batch_loop body ls cs'). P c" by blast
      with False Inr show ?thesis by simp
    qed
  qed
qed

lemma enhanced_try_valid:
  "enhanced_try parse alt line cs = Inr cs' \<Longrightarrow> \<forall>c\<in>set cs. validateParsedContact c
     \<Longrightarrow> \<forall>c\<in>set cs'. validateParsedContact c"
  by (auto simp add: enhanced_try_def split: sum.splits option.splits if_splits)

lemma validateParsedContact_iff:
  "validateParsedContact c =
     (truthy (first_name c) \<and> truthy (phone_number c)
      \<and> length (or_empty (phone_number c)) \<ge> 10
      \<and> (truthy (email c) \<longrightarrow> str_includes (or_empty (email c)) ''@''))"
  by (auto simp add: validateParsedContact_def)

lemma parseRawContactDataEnhanced_with_valid:
  "\<exists>cs. parseRawContactDataEnhanced_with parse alt rawData = Inr cs
     \<and> (\<forall>c\<in>set cs. validateParsedContact c)"
proof -
  have "\<forall>c\<in>set (batch_loop (enhanced_try parse alt) (nonblank_lines rawData) []).
          validateParsedContact c"
    by (rule batch_loop_all) (simp, erule enhanced_try_valid, assumption)
  then show ?thesis
    by (simp add: parseRawContactDataEnhanced_with_def)
qed

text \<open>
  C3, as the code has it. \<open>parseRawContactDataEnhanced\<close> returns, and every contact of
  its output passes \<open>validateParsedContact\<close>: its \<open>first_name\<close> is non-empty, its
  \<open>phone_number\<close> is a non-empty string of at least 10 characters (digits or not), and
  its \<open>email\<close>, if non-empty, includes \<open>@\<close>.
\<close>

theorem parseRawContactDataEnhanced_valid:
  "\<exists>cs. parseRawContactDataEnhanced rawData = Inr cs
     \<and> (\<forall>c\<in>set cs. truthy (first_name c) \<and> truthy (phone_number c)
           \<and> length (or_empty (phone_number c)) \<ge> 10
           \<and> (truthy (email c) \<longrightarrow> str_includes (or_empty (email c)) ''@''))"
  using parseRawContactDataEnhanced_with_valid
          [of "\<lambda>line. Inr (parseContactLine line)" "\<lambda>line. Inr (parseAlternativeFormats line)"
              rawData]
  by (simp add: parseRawContactDataEnhanced_def validateParsedContact_iff)

lemma parseRawContactDataEnhanced_example:
  "parseRawContactDataEnhanced
     (''Ann Lee, 555-123-4567, ann@x.com'' @ [CHR 0x0A] @ ''Bob, 12345'') =
   Inr [\<lparr>first_name = Some ''Ann'', last_name = Some ''Lee'',
         phone_number = Some ''+15551234567'', email = Some ''ann@x.com'',
         relationship_type = None, data_owner = None\<rparr>]"
  by code_simp

theorem parseRawContactDataEnhanced_valid_witness:
  "\<exists>cs. parseRawContactDataEnhanced
           (''Ann Lee, 555-123-4567, ann@x.com'' @ [CHR 0x0A] @ ''Bob, 12345'') = Inr cs
     \<and> cs = [\<lparr>first_name = Some ''Ann'', last_name = Some ''Lee'',
              phone_number = Some ''+15551234567'', email = Some ''ann@x.com'',
              relationship_type = None, data_owner = None\<rparr>]
     \<and> (\<forall>c\<in>set cs. truthy (first_name c) \<and> truthy (phone_number c)
           \<and> length (or_empty (phone_number c)) \<ge> 10
           \<and> (truthy (email c) \<longrightarrow> str_includes (or_empty (email c)) ''@''))"
  using parseRawContactDataEnhanced_valid
          [of "''Ann Lee, 555-123-4567, ann@x.com'' @ [CHR 0x0A] @ ''Bob, 12345''"]
        parseRawContactDataEnhanced_example
  by auto

text \<open>
  C3 as stated fails on the digits: the line \<open>Ann Lee, 555-123-45\<close> is kept, its phone
  \<open>555-123-45\<close> has 10 characters and normalizes to the 8 digits \<open>55512345\<close>.
\<close>

theorem parseRawContactDataEnhanced_digits_counterexample:
  "parseRawContactDataEnhanced ''Ann Lee, 555-123-45'' =
     Inr [\<lparr>first_name = Some ''Ann'', last_name = Some ''Lee'',
           phone_number = Some ''555-123-45'', email = None,
           relationship_type = None, data_owner = None\<rparr>]
   \<and> normalizePhoneNumber ''555-123-45'' = ''55512345''
   \<and> length (normalizePhoneNumber ''555-123-45'') = 8"
  by code_simp

end
